theory Spec2Isabelle
  imports Complex_Main
begin

section \<open>Data model (types/game.types.ts)\<close>

text \<open>
  JavaScript numbers are modelled as exact reals: every result below is the value the
  code computes when its arithmetic is carried out without rounding error, on finite
  inputs. \<open>null\<close> is \<open>None\<close>.
\<close>

datatype EvolutionStage = Genesis | Custom | Product | Commodity

datatype Classification = Build | Buy | Repurpose

type_synonym ComponentClassification = "Classification option"

text \<open>The fields \<open>x\<close> and \<open>y\<close> of a position.\<close>

record Position =
  pos_x :: real
  pos_y :: real

text \<open>The fields \<open>id\<close>, \<open>name\<close> and \<open>description\<close> carry the prefix \<open>comp\<close>.\<close>

record MapComponent =
  comp_id :: string
  comp_name :: string
  comp_description :: string
  correctEvolution :: EvolutionStage
  correctClassification :: ComponentClassification
  correctPosition :: Position
  position :: "Position option"
  classification :: ComponentClassification
  isPlaced :: bool

record Dependency =
  dep_id :: string
  fromComponentId :: string
  toComponentId :: string

record ScoringWeights =
  positionAccuracy :: real
  classificationAccuracy :: real
  dependencyLogic :: real
  completionBonus :: real

record EvolutionConfig =
  key :: EvolutionStage
  stage_label :: string
  stage_description :: string
  xRange :: "real \<times> real"

section \<open>Configuration (utils/gameData.ts)\<close>

definition EVOLUTION_STAGES :: "EvolutionConfig list" where
  "EVOLUTION_STAGES =
    [\<lparr>key = Genesis, stage_label = ''Genesis'',
      stage_description = ''Novel, uncertain, rapidly changing'', xRange = (0, 25)\<rparr>,
     \<lparr>key = Custom, stage_label = ''Custom Built'',
      stage_description = ''Emerging, stabilizing'', xRange = (25, 50)\<rparr>,
     \<lparr>key = Product, stage_label = ''Product/Service'',
      stage_description = ''Mature, well understood'', xRange = (50, 75)\<rparr>,
     \<lparr>key = Commodity, stage_label = ''Commodity/Utility'',
      stage_description = ''Ubiquitous, standardized'', xRange = (75, 100)\<rparr>]"

definition CORRECT_DEPENDENCIES :: "(string \<times> string) list" where
  "CORRECT_DEPENDENCIES =
    [(''mince-pie-delivery'', ''elf-dashboard''),
     (''mince-pie-delivery'', ''delivery-routing''),
     (''elf-dashboard'', ''orchestration-framework''),
     (''delivery-routing'', ''cloud-compute''),
     (''ai-recipe-generator'', ''foundational-ai''),
     (''orchestration-framework'', ''coordination-centre''),
     (''orchestration-framework'', ''foundational-ai''),
     (''foundational-ai'', ''cloud-compute''),
     (''cloud-compute'', ''network-comms''),
     (''coordination-centre'', ''cloud-compute''),
     (''encounter-agents'', ''orchestration-framework''),
     (''trust-framework'', ''orchestration-framework'')]"

section \<open>Scoring (utils/commentary.ts)\<close>

definition WEIGHTS :: ScoringWeights where
  "WEIGHTS = \<lparr>positionAccuracy = 30, classificationAccuracy = 30,
              dependencyLogic = 25, completionBonus = 15\<rparr>"

definition calculateDistance :: "Position \<Rightarrow> Position \<Rightarrow> real" where
  "calculateDistance pos1 pos2 =
    (let dx = pos_x pos1 - pos_x pos2;
         dy = pos_y pos1 - pos_y pos2
     in sqrt (dx * dx + dy * dy))"

text \<open>The \<open>for\<close> loop over the stages, leaving at the first stage whose range holds \<open>x\<close>.\<close>

fun stageLoop :: "EvolutionConfig list \<Rightarrow> real \<Rightarrow> EvolutionStage" where
  "stageLoop [] x = Commodity"
| "stageLoop (stage # rest) x =
    (if x \<ge> fst (xRange stage) \<and> x < snd (xRange stage) then key stage
     else stageLoop rest x)"

definition getEvolutionStageFromX :: "real \<Rightarrow> EvolutionStage" where
  "getEvolutionStageFromX x = stageLoop EVOLUTION_STAGES x"

text \<open>
  The accumulating loop of \<open>calculatePositionScore\<close>; a component without a position is
  skipped (\<open>continue\<close>).
\<close>

fun positionLoop :: "MapComponent list \<Rightarrow> real \<Rightarrow> real" where
  "positionLoop [] totalScore = totalScore"
| "positionLoop (component # rest) totalScore =
    (case position component of
       None \<Rightarrow> positionLoop rest totalScore
     | Some p \<Rightarrow>
        (let distance = calculateDistance p (correctPosition component);
             maxDistance = 141;
             normalizedDistance = min (distance / maxDistance) 1;
             componentScore = (1 - normalizedDistance) ^ 2 * 100
         in positionLoop rest (totalScore + componentScore)))"

definition calculatePositionScore :: "MapComponent list \<Rightarrow> real" where
  "calculatePositionScore components =
    (let placedComponents = filter (\<lambda>c. isPlaced c \<and> position c \<noteq> None) components
     in if length placedComponents = 0 then 0
        else (positionLoop placedComponents 0 / real (length placedComponents))
             * (positionAccuracy WEIGHTS / 100))"

definition calculateClassificationScore :: "MapComponent list \<Rightarrow> real" where
  "calculateClassificationScore components =
    (let classifiedComponents = filter (\<lambda>c. classification c \<noteq> None) components
     in if length classifiedComponents = 0 then 0
        else (let correctClassifications =
                    length (filter (\<lambda>c. classification c = correctClassification c)
                              classifiedComponents)
              in (real correctClassifications / real (length classifiedComponents))
                 * classificationAccuracy WEIGHTS))"

text \<open>The test \<open>CORRECT_DEPENDENCIES.some(...)\<close> on one dependency.\<close>

definition isCorrect :: "Dependency \<Rightarrow> bool" where
  "isCorrect dep =
    list_ex (\<lambda>(from, to).
        (fromComponentId dep = from \<and> toComponentId dep = to) \<or>
        (fromComponentId dep = to \<and> toComponentId dep = from))
      CORRECT_DEPENDENCIES"

fun dependencyLoop :: "Dependency list \<Rightarrow> nat \<Rightarrow> nat" where
  "dependencyLoop [] correctDependencies = correctDependencies"
| "dependencyLoop (dep # rest) correctDependencies =
    (if isCorrect dep then dependencyLoop rest (correctDependencies + 1)
     else dependencyLoop rest correctDependencies)"

definition calculateDependencyScore :: "Dependency list \<Rightarrow> real" where
  "calculateDependencyScore dependencies =
    (if length dependencies = 0 then 0
     else (let correctDependencies = dependencyLoop dependencies 0;
               accuracy = real correctDependencies
                          / real (max (length dependencies) (length CORRECT_DEPENDENCIES))
           in accuracy * dependencyLogic WEIGHTS))"

text \<open>
  In \<open>calculateCompletionBonus\<close> the divisor \<open>components.length\<close> is never zero where it
  is used: on the empty array both \<open>every\<close> tests hold and the first branch returns.
\<close>

definition calculateCompletionBonus :: "MapComponent list \<Rightarrow> real" where
  "calculateCompletionBonus components =
    (let allPlaced = list_all isPlaced components;
         allClassified = list_all (\<lambda>c. classification c \<noteq> None) components
     in if allPlaced \<and> allClassified then completionBonus WEIGHTS
        else (let placedRatio =
                    real (length (filter isPlaced components)) / real (length components);
                  classifiedRatio =
                    real (length (filter (\<lambda>c. classification c \<noteq> None) components))
                    / real (length components)
              in ((placedRatio + classifiedRatio) / 2) * completionBonus WEIGHTS))"

text \<open>\<open>Math.round\<close>: the nearest integer, a tie going up.\<close>

definition Math_round :: "real \<Rightarrow> int" where
  "Math_round v = \<lfloor>v + 1 / 2\<rfloor>"

definition calculateTotalScore :: "MapComponent list \<Rightarrow> Dependency list \<Rightarrow> int" where
  "calculateTotalScore components dependencies =
    (let positionScore = calculatePositionScore components;
         classificationScore = calculateClassificationScore components;
         dependencyScore = calculateDependencyScore dependencies;
         completionBonus = calculateCompletionBonus components
     in Math_round (positionScore + classificationScore + dependencyScore + completionBonus))"

definition checkBadgeEarned :: "string \<Rightarrow> MapComponent list \<Rightarrow> Dependency list \<Rightarrow> bool" where
  "checkBadgeEarned badgeId components dependencies =
    (if badgeId = ''cloud-wisdom'' then
       (case find (\<lambda>c. comp_id c = ''cloud-compute'') components of
          None \<Rightarrow> False
        | Some cloudCompute \<Rightarrow>
           (case position cloudCompute of
              None \<Rightarrow> False
            | Some p \<Rightarrow>
               (let evolution = getEvolutionStageFromX (pos_x p)
                in evolution = Commodity \<and> classification cloudCompute = Some Buy)))
     else if badgeId = ''innovation-star'' then
       (let genesisComponents = filter (\<lambda>c. correctEvolution c = Genesis) components
        in list_all (\<lambda>c.
             (case position c of
                None \<Rightarrow> False
              | Some p \<Rightarrow>
                 (let evolution = getEvolutionStageFromX (pos_x p)
                  in evolution = Genesis \<and> classification c = Some Build)))
             genesisComponents)
     else if badgeId = ''reindeer-efficiency'' then
       (case find (\<lambda>c. correctClassification c = Some Repurpose) components of
          None \<Rightarrow> False
        | Some repurposeComponent \<Rightarrow> classification repurposeComponent = Some Repurpose)
     else if badgeId = ''strategic-mapper'' then
       (let score = calculateTotalScore components dependencies
        in score \<ge> 70)
     else if badgeId = ''dependency-master'' then
       (let correctDeps = filter isCorrect dependencies
        in length correctDeps \<ge> 5)
     else False)"

section \<open>Edge routing (components/DependencyLines.tsx)\<close>

definition CARD_WIDTH :: real where
  "CARD_WIDTH = 190"

definition CARD_HEIGHT :: real where
  "CARD_HEIGHT = 120"

definition ARROWHEAD_LENGTH :: real where
  "ARROWHEAD_LENGTH = 10"

text \<open>
  \<open>Math.atan2(y, x)\<close> as the angle of the vector \<open>(x, y)\<close>, in the interval from \<open>-\<pi>\<close>
  (excluded) to \<open>\<pi>\<close>, and 0 for the zero vector.
\<close>

definition Math_atan2 :: "real \<Rightarrow> real \<Rightarrow> real" where
  "Math_atan2 y x =
    (if x > 0 then arctan (y / x)
     else if x < 0 then (if y \<ge> 0 then arctan (y / x) + pi else arctan (y / x) - pi)
     else if y > 0 then pi / 2
     else if y < 0 then - (pi / 2)
     else 0)"

definition getComponentCenter ::
  "MapComponent list \<Rightarrow> real \<Rightarrow> real \<Rightarrow> string \<Rightarrow> Position option" where
  "getComponentCenter components canvasWidth canvasHeight componentId =
    (case find (\<lambda>c. comp_id c = componentId) components of
       None \<Rightarrow> None
     | Some component \<Rightarrow>
        (case position component of
           None \<Rightarrow> None
         | Some p \<Rightarrow>
            Some \<lparr>pos_x = (pos_x p / 100) * canvasWidth,
                  pos_y = (pos_y p / 100) * canvasHeight\<rparr>))"

text \<open>
  The local variables \<open>intersectX\<close> and \<open>intersectY\<close> of \<open>getEdgeIntersection\<close>, before
  the offset by the arrowhead length. At a vertical connection the angle is \<open>\<pi>/2\<close> or
  \<open>-\<pi>/2\<close>, where the tangent has no value: \<open>tan\<close> is 0 there and so is a quotient by it,
  which makes the horizontal offset 0. (The double nearest to \<open>\<pi>/2\<close> has a finite tangent
  of magnitude above 1e16, so the computed offset is below 1e-14 in magnitude.)
\<close>

definition edgeIntersect :: "Position \<Rightarrow> Position \<Rightarrow> real \<times> real" where
  "edgeIntersect fromPoint toPoint =
    (let dx = pos_x toPoint - pos_x fromPoint;
         dy = pos_y toPoint - pos_y fromPoint;
         angle = Math_atan2 dy dx;
         halfWidth = CARD_WIDTH / 2;
         halfHeight = CARD_HEIGHT / 2;
         absAngle = \<bar>angle\<bar>;
         cardAspectRatio = Math_atan2 halfHeight halfWidth
     in if absAngle < cardAspectRatio then
          (pos_x toPoint - halfWidth, pos_y toPoint - halfWidth * tan angle)
        else if absAngle > pi - cardAspectRatio then
          (pos_x toPoint + halfWidth, pos_y toPoint + halfWidth * tan angle)
        else if angle > 0 then
          (pos_x toPoint - halfHeight / tan angle, pos_y toPoint - halfHeight)
        else
          (pos_x toPoint - halfHeight / tan angle, pos_y toPoint + halfHeight))"

text \<open>
  The result of \<open>getEdgeIntersection\<close>. When the two points coincide the line length is 0,
  the unit direction is 0/0 and both coordinates are NaN: the model returns \<open>None\<close>.
\<close>

definition getEdgeIntersection :: "Position \<Rightarrow> Position \<Rightarrow> Position option" where
  "getEdgeIntersection fromPoint toPoint =
    (let dx = pos_x toPoint - pos_x fromPoint;
         dy = pos_y toPoint - pos_y fromPoint;
         (intersectX, intersectY) = edgeIntersect fromPoint toPoint;
         lineLength = sqrt (dx * dx + dy * dy)
     in if lineLength = 0 then None
        else (let unitDx = dx / lineLength;
                  unitDy = dy / lineLength
              in Some \<lparr>pos_x = intersectX - unitDx * ARROWHEAD_LENGTH,
                        pos_y = intersectY - unitDy * ARROWHEAD_LENGTH\<rparr>))"

text \<open>
  The two points that the rendering loop passes to \<open>createPath\<close> for one dependency, or
  \<open>None\<close> when the loop skips the dependency.
\<close>

definition connector ::
  "MapComponent list \<Rightarrow> real \<Rightarrow> real \<Rightarrow> Dependency \<Rightarrow> (Position \<times> Position option) option" where
  "connector components canvasWidth canvasHeight dependency =
    (case getComponentCenter components canvasWidth canvasHeight (fromComponentId dependency) of
       None \<Rightarrow> None
     | Some fromPos \<Rightarrow>
        (case getComponentCenter components canvasWidth canvasHeight (toComponentId dependency) of
           None \<Rightarrow> None
         | Some toCenter \<Rightarrow>
            (let toPos = getEdgeIntersection fromPos toCenter
             in Some (fromPos, toPos))))"

section \<open>The specification's wording, as definitions\<close>

text \<open>
  A declared relationship matches the reference table when its unordered pair of ids is
  the unordered pair of some entry.
\<close>

definition matchesReference :: "Dependency \<Rightarrow> bool" where
  "matchesReference dep =
    ({fromComponentId dep, toComponentId dep} \<in> (\<lambda>(a, b). {a, b}) ` set CORRECT_DEPENDENCIES)"

definition correctCount :: "Dependency list \<Rightarrow> nat" where
  "correctCount dependencies = length (filter matchesReference dependencies)"

text \<open>
  The per-item placement value on the 0..100 scale, for a normalising distance \<open>D\<close>, and
  the position sub-score built from it: the average over the placed items, scaled by
  30/100, and 0 when no item is placed. An item counts as placed when the filter of
  \<open>calculatePositionScore\<close> keeps it.
\<close>

definition placementValue :: "real \<Rightarrow> MapComponent \<Rightarrow> real" where
  "placementValue D c =
    (case position c of
       None \<Rightarrow> 0
     | Some p \<Rightarrow> (1 - min (calculateDistance p (correctPosition c) / D) 1) ^ 2 * 100)"

definition placedItems :: "MapComponent list \<Rightarrow> MapComponent list" where
  "placedItems cs = filter (\<lambda>c. isPlaced c \<and> position c \<noteq> None) cs"

definition positionScoreWith :: "real \<Rightarrow> MapComponent list \<Rightarrow> real" where
  "positionScoreWith D cs =
    (if placedItems cs = [] then 0
     else (sum_list (map (placementValue D) (placedItems cs)) / real (length (placedItems cs)))
          * (30 / 100))"

text \<open>The diagonal of the 100 by 100 space.\<close>

definition maxDiagonal :: real where
  "maxDiagonal = sqrt (100 ^ 2 + 100 ^ 2)"

text \<open>
  Completion: an item is fully complete when it is placed and classified; each ratio is
  the number of items satisfying the condition over the total number of items.
\<close>

definition fullyComplete :: "MapComponent \<Rightarrow> bool" where
  "fullyComplete c = (isPlaced c \<and> classification c \<noteq> None)"

definition placedRatio :: "MapComponent list \<Rightarrow> real" where
  "placedRatio cs = real (length (filter isPlaced cs)) / real (length cs)"

definition classifiedRatio :: "MapComponent list \<Rightarrow> real" where
  "classifiedRatio cs =
     real (length (filter (\<lambda>c. classification c \<noteq> None) cs)) / real (length cs)"

text \<open>
  Classification: the items that have a classification set, and among them those whose
  actual classification equals the target.
\<close>

definition classifiedItems :: "MapComponent list \<Rightarrow> MapComponent list" where
  "classifiedItems cs = filter (\<lambda>c. classification c \<noteq> None) cs"

definition correctlyClassified :: "MapComponent \<Rightarrow> bool" where
  "correctlyClassified c = (classification c = correctClassification c)"

text \<open>
  A genesis-tier item is built when it has a position whose X coordinate lies in the
  genesis range, from 0 up to but not including 25, and it is classified "build".
\<close>

definition genesisBuilt :: "MapComponent \<Rightarrow> bool" where
  "genesisBuilt c =
    ((case position c of None \<Rightarrow> False | Some p \<Rightarrow> 0 \<le> pos_x p \<and> pos_x p < 25)
     \<and> classification c = Some Build)"

text \<open>
  Edge routing. The four sides of the target box carry the names that the comments of
  \<open>getEdgeIntersection\<close> give them: the side called right is the vertical side at
  \<open>x - halfWidth\<close>, the side called left the one at \<open>x + halfWidth\<close>, the side called bottom
  the horizontal side at \<open>y - halfHeight\<close> and the side called top the one at
  \<open>y + halfHeight\<close>, where \<open>(x, y)\<close> is the center of the box. In each case this is the side
  that faces the source. The struck side is chosen from the direction angle and the
  corner half-angle, and the point on it is computed from the tangent of the angle.
\<close>

datatype BoxEdge = RightEdge | LeftEdge | BottomEdge | TopEdge

definition struckEdge :: "real \<Rightarrow> real \<Rightarrow> BoxEdge" where
  "struckEdge \<theta> \<phi> =
    (if \<bar>\<theta>\<bar> < \<phi> then RightEdge
     else if \<bar>\<theta>\<bar> > pi - \<phi> then LeftEdge
     else if \<theta> > 0 then BottomEdge
     else TopEdge)"

fun edgePoint :: "BoxEdge \<Rightarrow> Position \<Rightarrow> real \<Rightarrow> real \<Rightarrow> real \<Rightarrow> real \<times> real" where
  "edgePoint RightEdge c hw hh \<theta> = (pos_x c - hw, pos_y c - hw * tan \<theta>)"
| "edgePoint LeftEdge c hw hh \<theta> = (pos_x c + hw, pos_y c + hw * tan \<theta>)"
| "edgePoint BottomEdge c hw hh \<theta> = (pos_x c - hh / tan \<theta>, pos_y c - hh)"
| "edgePoint TopEdge c hw hh \<theta> = (pos_x c - hh / tan \<theta>, pos_y c + hh)"

definition directionAngle :: "Position \<Rightarrow> Position \<Rightarrow> real" where
  "directionAngle f t = Math_atan2 (pos_y t - pos_y f) (pos_x t - pos_x f)"

definition cornerAngle :: real where
  "cornerAngle = Math_atan2 (CARD_HEIGHT / 2) (CARD_WIDTH / 2)"

text \<open>A point lies on the straight line through the two centers.\<close>

definition onCenterLine :: "Position \<Rightarrow> Position \<Rightarrow> real \<times> real \<Rightarrow> bool" where
  "onCenterLine f t p =
    ((fst p - pos_x t) * (pos_y t - pos_y f) = (snd p - pos_y t) * (pos_x t - pos_x f))"

section \<open>Sample arrangements\<close>

definition dep3 :: "Dependency list" where
  "dep3 =
    [\<lparr>dep_id = ''d1'', fromComponentId = ''elf-dashboard'',
      toComponentId = ''mince-pie-delivery''\<rparr>,
     \<lparr>dep_id = ''d2'', fromComponentId = ''cloud-compute'',
      toComponentId = ''network-comms''\<rparr>,
     \<lparr>dep_id = ''d3'', fromComponentId = ''trust-framework'',
      toComponentId = ''orchestration-framework''\<rparr>]"

text \<open>
  A component with the given id, targets, position and classification; it is marked
  placed exactly when it has a position.
\<close>

definition mkComponent ::
  "string \<Rightarrow> EvolutionStage \<Rightarrow> Classification \<Rightarrow> real \<times> real \<Rightarrow> (real \<times> real) option
    \<Rightarrow> Classification option \<Rightarrow> MapComponent" where
  "mkComponent cid ev cls target pos cl =
    \<lparr>comp_id = cid, comp_name = [], comp_description = [],
     correctEvolution = ev, correctClassification = Some cls,
     correctPosition = \<lparr>pos_x = fst target, pos_y = snd target\<rparr>,
     position = map_option (\<lambda>(a, b). \<lparr>pos_x = a, pos_y = b\<rparr>) pos,
     classification = cl, isPlaced = (pos \<noteq> None)\<rparr>"

definition unplacedUnclassified :: MapComponent where
  "unplacedUnclassified = mkComponent ''mince-pie-delivery'' Product Build (65, 85) None None"

definition elevenItems :: "MapComponent list" where
  "elevenItems =
    replicate 5 (mkComponent ''a'' Product Build (65, 85) (Some (10, 10)) None)
    @ replicate 5 (mkComponent ''b'' Custom Build (35, 45) None (Some Buy))
    @ [mkComponent ''c'' Genesis Build (15, 55) None None]"

definition fourItems :: "MapComponent list" where
  "fourItems =
    [mkComponent ''mince-pie-delivery'' Product Build (65, 85) None (Some Build),
     mkComponent ''encounter-agents'' Custom Repurpose (40, 70) (Some (3, 4)) None,
     mkComponent ''delivery-routing'' Product Buy (60, 50) None (Some Buy),
     mkComponent ''ai-recipe-generator'' Genesis Build (15, 55) None None]"

definition offTarget :: MapComponent where
  "offTarget = mkComponent ''cloud-compute'' Commodity Buy (85, 25) (Some (5, 85)) None"

definition unplacedItem :: MapComponent where
  "unplacedItem = mkComponent ''network-comms'' Commodity Buy (90, 15) None (Some Buy)"

definition noGenesis :: "MapComponent list" where
  "noGenesis =
    [mkComponent ''mince-pie-delivery'' Product Build (65, 85) None None,
     mkComponent ''cloud-compute'' Commodity Buy (85, 25) (Some (150, 25)) (Some Buy)]"

definition genesisDone :: "MapComponent list" where
  "genesisDone =
    [mkComponent ''ai-recipe-generator'' Genesis Build (15, 55) (Some (24, 3)) (Some Build),
     mkComponent ''delivery-routing'' Product Buy (60, 50) None None]"

definition genesisMisplaced :: "MapComponent list" where
  "genesisMisplaced =
    [mkComponent ''ai-recipe-generator'' Genesis Build (15, 55) (Some (25, 55)) (Some Build)]"

definition repurposeSecond :: "MapComponent list" where
  "repurposeSecond =
    [mkComponent ''encounter-agents'' Custom Repurpose (40, 70) None (Some Build),
     mkComponent ''elf-dashboard'' Custom Repurpose (45, 60) None (Some Repurpose)]"

definition repurposeFirst :: "MapComponent list" where
  "repurposeFirst =
    [mkComponent ''mince-pie-delivery'' Product Build (65, 85) None None,
     mkComponent ''encounter-agents'' Custom Repurpose (40, 70) None (Some Repurpose),
     mkComponent ''elf-dashboard'' Custom Repurpose (45, 60) None None]"

section \<open>Dependency sub-score\<close>

lemma isCorrect_matchesReference: "isCorrect dep = matchesReference dep"
  unfolding isCorrect_def matchesReference_def list_ex_iff
  by (auto simp: doubleton_eq_iff image_iff split: prod.splits)

lemma isCorrect_eq: "isCorrect = matchesReference"
  by (rule ext) (rule isCorrect_matchesReference)

lemma dependencyLoop_count:
  "dependencyLoop ds n = n + length (filter isCorrect ds)"
  by (induction ds arbitrary: n) simp_all

lemma length_CORRECT_DEPENDENCIES: "length CORRECT_DEPENDENCIES = 12"
  by (simp add: CORRECT_DEPENDENCIES_def)

lemma calculateDependencyScore_formula:
  "calculateDependencyScore ds =
     (real (correctCount ds) / real (max (length ds) 12)) * 25"
  by (simp add: calculateDependencyScore_def dependencyLoop_count correctCount_def
      isCorrect_eq length_CORRECT_DEPENDENCIES WEIGHTS_def Let_def)

text \<open>
  C2. The dependency sub-score is the number of declared relationships whose unordered id
  pair is in the reference table, divided by the larger of the number declared and the
  size of the table, times 25. The table has 12 entries. No declared relationship gives
  0, and three declared relationships that all match give 6.25.
\<close>

theorem dependency_score:
  "calculateDependencyScore ds =
     (real (correctCount ds) / real (max (length ds) (length CORRECT_DEPENDENCIES))) * 25
   \<and> length CORRECT_DEPENDENCIES = 12
   \<and> calculateDependencyScore [] = 0
   \<and> (length ds = 3 \<and> correctCount ds = 3 \<longrightarrow> calculateDependencyScore ds = 6.25)"
  by (simp add: calculateDependencyScore_formula length_CORRECT_DEPENDENCIES correctCount_def)

theorem dependency_score_witness:
  "length dep3 = 3 \<and> correctCount dep3 = 3 \<and> calculateDependencyScore dep3 = 6.25"
proof -
  have c: "correctCount dep3 = 3"
    unfolding correctCount_def isCorrect_eq [symmetric]
    by (simp add: dep3_def isCorrect_def CORRECT_DEPENDENCIES_def)
  have l: "length dep3 = 3" by (simp add: dep3_def)
  from dependency_score [of dep3] c l show ?thesis by simp
qed

section \<open>Bounds of the sub-scores and the total score\<close>

lemma positionLoop_sum:
  "positionLoop cs t = t + sum_list (map (placementValue 141) cs)"
  by (induction cs arbitrary: t) (simp_all add: placementValue_def Let_def split: option.splits)

lemma calculatePositionScore_formula:
  "calculatePositionScore cs = positionScoreWith 141 cs"
  by (simp add: calculatePositionScore_def positionScoreWith_def placedItems_def
      positionLoop_sum WEIGHTS_def Let_def)

lemma calculateDistance_nonneg: "0 \<le> calculateDistance p q"
  by (simp add: calculateDistance_def Let_def)

lemma placementValue_bounds:
  assumes "0 < D"
  shows "0 \<le> placementValue D c \<and> placementValue D c \<le> 100"
proof (cases "position c")
  case None
  then show ?thesis by (simp add: placementValue_def)
next
  case (Some p)
  define n where "n = min (calculateDistance p (correctPosition c) / D) 1"
  have "0 \<le> n" "n \<le> 1"
    using assms calculateDistance_nonneg [of p "correctPosition c"] by (simp_all add: n_def)
  then have "0 \<le> 1 - n" "1 - n \<le> 1" by simp_all
  then have "(1 - n) ^ 2 \<le> 1" "0 \<le> (1 - n)^2"
    by (simp_all add: power_le_one)
  then show ?thesis using Some by (simp add: placementValue_def n_def)
qed

lemma sum_list_bounds:
  fixes f :: "'a \<Rightarrow> real"
  assumes "\<And>x. 0 \<le> f x \<and> f x \<le> b"
  shows "0 \<le> sum_list (map f xs) \<and> sum_list (map f xs) \<le> b * real (length xs)"
proof (induction xs)
  case Nil
  then show ?case by simp
next
  case (Cons a xs)
  then show ?case using assms [of a] by (simp add: algebra_simps)
qed

lemma positionScoreWith_bounds:
  assumes "0 < D"
  shows "0 \<le> positionScoreWith D cs \<and> positionScoreWith D cs \<le> 30"
proof (cases "placedItems cs = []")
  case True
  then show ?thesis by (simp add: positionScoreWith_def)
next
  case False
  let ?s = "sum_list (map (placementValue D) (placedItems cs))"
  let ?n = "real (length (placedItems cs))"
  have n: "0 < ?n" using False by simp
  have s: "0 \<le> ?s \<and> ?s \<le> 100 * ?n"
    by (rule sum_list_bounds) (rule placementValue_bounds [OF assms])
  then have "0 \<le> ?s / ?n" "?s / ?n \<le> 100"
    using n by (simp_all add: pos_divide_le_eq)
  then show ?thesis using False by (simp add: positionScoreWith_def)
qed

lemma calculatePositionScore_bounds:
  "0 \<le> calculatePositionScore cs \<and> calculatePositionScore cs \<le> 30"
  using positionScoreWith_bounds [of 141 cs] by (simp add: calculatePositionScore_formula)

lemma ratio_bounds:
  "0 \<le> real (length (filter P xs)) / real (length xs)
   \<and> real (length (filter P xs)) / real (length xs) \<le> 1"
proof -
  have "length (filter P xs) \<le> length xs" by (rule length_filter_le)
  then show ?thesis by (simp add: divide_le_eq_1)
qed

lemma scaled_ratio_bounds:
  fixes r w :: real
  assumes "0 \<le> r \<and> r \<le> 1" and "0 \<le> w"
  shows "0 \<le> r * w \<and> r * w \<le> w"
  using assms by (simp add: mult_left_le_one_le mult.commute)

lemma mean_bounds:
  fixes a b :: real
  assumes "0 \<le> a \<and> a \<le> 1" and "0 \<le> b \<and> b \<le> 1"
  shows "0 \<le> (a + b) / 2 \<and> (a + b) / 2 \<le> 1"
  using assms by simp

lemma calculateClassificationScore_bounds:
  "0 \<le> calculateClassificationScore cs \<and> calculateClassificationScore cs \<le> 30"
proof -
  let ?cl = "filter (\<lambda>c. classification c \<noteq> None) cs"
  let ?r = "real (length (filter (\<lambda>c. classification c = correctClassification c) ?cl))
            / real (length ?cl)"
  have eq: "calculateClassificationScore cs = (if length ?cl = 0 then 0 else ?r * 30)"
    unfolding calculateClassificationScore_def Let_def WEIGHTS_def by simp
  have "0 \<le> ?r * 30 \<and> ?r * 30 \<le> 30"
    by (rule scaled_ratio_bounds [OF ratio_bounds]) simp
  then show ?thesis unfolding eq by simp
qed

lemma calculateCompletionBonus_bounds:
  "0 \<le> calculateCompletionBonus cs \<and> calculateCompletionBonus cs \<le> 15"
proof -
  let ?p = "real (length (filter isPlaced cs)) / real (length cs)"
  let ?c = "real (length (filter (\<lambda>c. classification c \<noteq> None) cs)) / real (length cs)"
  have eq: "calculateCompletionBonus cs =
      (if list_all isPlaced cs \<and> list_all (\<lambda>c. classification c \<noteq> None) cs then 15
       else ((?p + ?c) / 2) * 15)"
    unfolding calculateCompletionBonus_def Let_def WEIGHTS_def by simp
  have "0 \<le> (?p + ?c) / 2 \<and> (?p + ?c) / 2 \<le> 1"
    by (rule mean_bounds [OF ratio_bounds ratio_bounds])
  then have "0 \<le> ((?p + ?c) / 2) * 15 \<and> ((?p + ?c) / 2) * 15 \<le> 15"
    by (rule scaled_ratio_bounds) simp
  then show ?thesis unfolding eq by simp
qed

lemma calculateDependencyScore_bounds:
  "0 \<le> calculateDependencyScore ds \<and> calculateDependencyScore ds \<le> 25"
proof -
  let ?r = "real (correctCount ds) / real (max (length ds) 12)"
  have "correctCount ds \<le> max (length ds) 12"
    unfolding correctCount_def using length_filter_le [of matchesReference ds] by linarith
  then have "0 \<le> ?r \<and> ?r \<le> 1" by (simp add: divide_le_eq_1)
  then have "0 \<le> ?r * 25 \<and> ?r * 25 \<le> 25"
    by (rule scaled_ratio_bounds) simp
  then show ?thesis unfolding calculateDependencyScore_formula .
qed

lemma Math_round_bounds:
  assumes "0 \<le> v" and "v \<le> 100"
  shows "0 \<le> Math_round v \<and> Math_round v \<le> 100"
  using assms unfolding Math_round_def by (simp add: floor_le_iff le_floor_iff)

lemma calculateTotalScore_bounds:
  "0 \<le> calculateTotalScore cs ds \<and> calculateTotalScore cs ds \<le> 100"
proof -
  let ?v = "calculatePositionScore cs + calculateClassificationScore cs
            + calculateDependencyScore ds + calculateCompletionBonus cs"
  have "0 \<le> ?v" "?v \<le> 100"
    using calculatePositionScore_bounds [of cs] calculateClassificationScore_bounds [of cs]
      calculateDependencyScore_bounds [of ds] calculateCompletionBonus_bounds [of cs]
    by linarith+
  then show ?thesis
    unfolding calculateTotalScore_def Let_def by (rule Math_round_bounds)
qed

lemma calculateTotalScore_empty: "calculateTotalScore [] [] = 15"
  by (simp add: calculateTotalScore_def calculatePositionScore_def
      calculateClassificationScore_def calculateDependencyScore_def
      calculateCompletionBonus_def WEIGHTS_def Math_round_def)

lemma calculateTotalScore_unstarted:
  "calculateTotalScore [unplacedUnclassified] [] = 0"
  by (simp add: calculateTotalScore_def calculatePositionScore_def
      calculateClassificationScore_def calculateDependencyScore_def
      calculateCompletionBonus_def WEIGHTS_def Math_round_def
      unplacedUnclassified_def mkComponent_def)

text \<open>
  C1, as stated, fails on the empty collections: every item of an empty collection is
  placed and classified, so the completion bonus is the full 15 and the score is 15.
\<close>

theorem total_score_empty_counterexample:
  "calculateTotalScore [] [] = 15 \<and> calculateTotalScore [] [] \<noteq> 0"
  by (simp add: calculateTotalScore_empty)

text \<open>
  C1, amended. For all items and relationships the score is an integer from 0 to 100;
  on the empty collections it is 15.
\<close>

theorem total_score_range:
  "0 \<le> calculateTotalScore cs ds \<and> calculateTotalScore cs ds \<le> 100
   \<and> calculateTotalScore [] [] = 15"
  by (simp add: calculateTotalScore_bounds calculateTotalScore_empty)

section \<open>Completion bonus\<close>

lemma list_all_fullyComplete:
  "list_all fullyComplete cs =
     (list_all isPlaced cs \<and> list_all (\<lambda>c. classification c \<noteq> None) cs)"
  by (induction cs) (auto simp: fullyComplete_def)

lemma calculateCompletionBonus_formula:
  "calculateCompletionBonus cs =
     (if list_all fullyComplete cs then 15
      else ((placedRatio cs + classifiedRatio cs) / 2) * 15)"
  unfolding calculateCompletionBonus_def Let_def WEIGHTS_def list_all_fullyComplete
    placedRatio_def classifiedRatio_def
  by simp

lemma not_all_placed:
  assumes "length (filter isPlaced cs) < length cs"
  shows "\<not> list_all fullyComplete cs"
proof
  assume "list_all fullyComplete cs"
  then have "list_all isPlaced cs" by (simp add: list_all_fullyComplete)
  then have "filter isPlaced cs = cs" by (simp add: list_all_iff)
  with assms show False by simp
qed

text \<open>
  C6. The completion bonus is the full weight 15 when every item is placed and
  classified, and otherwise the mean of the placed ratio and the classified ratio times
  15. With 11 items of which 5 are placed and 5 are classified it is
  ((5/11 + 5/11)/2) * 15, which is within 0.05 of 6.8.
\<close>

theorem completion_bonus:
  "calculateCompletionBonus cs =
     (if list_all fullyComplete cs then 15
      else ((placedRatio cs + classifiedRatio cs) / 2) * 15)
   \<and> (length cs = 11 \<and> length (filter isPlaced cs) = 5
        \<and> length (filter (\<lambda>c. classification c \<noteq> None) cs) = 5
      \<longrightarrow> calculateCompletionBonus cs = ((5 / 11 + 5 / 11) / 2) * 15
          \<and> \<bar>calculateCompletionBonus cs - 6.8\<bar> < 0.05)"
proof -
  have "calculateCompletionBonus cs = ((5 / 11 + 5 / 11) / 2) * 15
        \<and> \<bar>calculateCompletionBonus cs - 6.8\<bar> < 0.05"
    if h: "length cs = 11" "length (filter isPlaced cs) = 5"
      "length (filter (\<lambda>c. classification c \<noteq> None) cs) = 5"
  proof -
    have "\<not> list_all fullyComplete cs"
      by (rule not_all_placed) (simp add: h)
    then have "calculateCompletionBonus cs = ((5 / 11 + 5 / 11) / 2) * 15"
      unfolding calculateCompletionBonus_formula placedRatio_def classifiedRatio_def h
      by simp
    then show ?thesis by simp
  qed
  then show ?thesis using calculateCompletionBonus_formula by blast
qed

theorem completion_bonus_witness:
  "length elevenItems = 11 \<and> length (filter isPlaced elevenItems) = 5
   \<and> length (filter (\<lambda>c. classification c \<noteq> None) elevenItems) = 5
   \<and> \<not> list_ex fullyComplete elevenItems
   \<and> calculateCompletionBonus elevenItems = 75 / 11"
proof -
  have a: "length elevenItems = 11" by (simp add: elevenItems_def)
  have b: "length (filter isPlaced elevenItems) = 5"
    by (simp add: elevenItems_def mkComponent_def)
  have c: "length (filter (\<lambda>c. classification c \<noteq> None) elevenItems) = 5"
    by (simp add: elevenItems_def mkComponent_def)
  have d: "\<not> list_ex fullyComplete elevenItems"
    by (simp add: elevenItems_def mkComponent_def fullyComplete_def list_ex_iff)
  from completion_bonus [of elevenItems] a b c d show ?thesis by simp
qed

section \<open>Classification sub-score\<close>

lemma calculateClassificationScore_formula:
  "calculateClassificationScore cs =
     (if classifiedItems cs = [] then 0
      else (real (length (filter correctlyClassified (classifiedItems cs)))
            / real (length (classifiedItems cs))) * 30)"
  unfolding calculateClassificationScore_def Let_def WEIGHTS_def classifiedItems_def
    correctlyClassified_def
  by simp

lemma classifiedItems_idem: "classifiedItems (classifiedItems cs) = classifiedItems cs"
  by (simp add: classifiedItems_def)

text \<open>
  C9. The classification sub-score is the number of correctly classified items over the
  number of classified items, times 30, and 0 when no item is classified. It is the same
  on the classified items alone, so unclassified items do not change it; with four items
  of which two are classified, both correctly, it is 30.
\<close>

theorem classification_score:
  "calculateClassificationScore cs =
     (if classifiedItems cs = [] then 0
      else (real (length (filter correctlyClassified (classifiedItems cs)))
            / real (length (classifiedItems cs))) * 30)
   \<and> calculateClassificationScore cs = calculateClassificationScore (classifiedItems cs)
   \<and> (length cs = 4 \<and> length (classifiedItems cs) = 2
        \<and> length (filter correctlyClassified (classifiedItems cs)) = 2
      \<longrightarrow> calculateClassificationScore cs = 30)"
proof -
  have "calculateClassificationScore cs = calculateClassificationScore (classifiedItems cs)"
    by (simp add: calculateClassificationScore_formula classifiedItems_idem)
  moreover have "calculateClassificationScore cs = 30"
    if "length (classifiedItems cs) = 2"
      "length (filter correctlyClassified (classifiedItems cs)) = 2"
  proof -
    from that(1) have "classifiedItems cs \<noteq> []" by auto
    then show ?thesis by (simp add: calculateClassificationScore_formula that)
  qed
  ultimately show ?thesis using calculateClassificationScore_formula by blast
qed

theorem classification_score_witness:
  "length fourItems = 4 \<and> length (classifiedItems fourItems) = 2
   \<and> length (filter correctlyClassified (classifiedItems fourItems)) = 2
   \<and> calculateClassificationScore fourItems = 30"
proof -
  have a: "length fourItems = 4" by (simp add: fourItems_def)
  have b: "length (classifiedItems fourItems) = 2"
    by (simp add: fourItems_def mkComponent_def classifiedItems_def)
  have c: "length (filter correctlyClassified (classifiedItems fourItems)) = 2"
    by (simp add: fourItems_def mkComponent_def classifiedItems_def correctlyClassified_def)
  from classification_score [of fourItems] a b c show ?thesis by simp
qed

section \<open>Position sub-score\<close>

lemma sqrt_10000: "sqrt 10000 = 100"
proof -
  have "sqrt (100\<^sup>2) = 100" by simp
  then show ?thesis by simp
qed

lemma maxDiagonal_gt: "141 < maxDiagonal"
  unfolding maxDiagonal_def by (rule real_less_rsqrt) simp

lemma offTarget_distance:
  "calculateDistance \<lparr>pos_x = 5, pos_y = 85\<rparr> \<lparr>pos_x = 85, pos_y = 25\<rparr> = 100"
  by (simp add: calculateDistance_def sqrt_10000)

lemma placedItems_offTarget: "placedItems [offTarget] = [offTarget]"
  by (simp add: placedItems_def offTarget_def mkComponent_def)

lemma placementValue_offTarget:
  "placementValue D offTarget = (1 - min (100 / D) 1) ^ 2 * 100"
  by (simp add: placementValue_def offTarget_def mkComponent_def offTarget_distance)

lemma positionScoreWith_offTarget:
  "positionScoreWith D [offTarget] = (1 - min (100 / D) 1) ^ 2 * 100 * (30 / 100)"
  by (simp add: positionScoreWith_def placedItems_offTarget placementValue_offTarget)

lemma offTarget_code: "calculatePositionScore [offTarget] = 50430 / 19881"
  by (simp add: calculatePositionScore_formula positionScoreWith_offTarget power2_eq_square)

lemma offTarget_spec: "50430 / 19881 < positionScoreWith maxDiagonal [offTarget]"
proof -
  have d: "141 < maxDiagonal" by (rule maxDiagonal_gt)
  then have "100 / maxDiagonal < 100 / 141"
    by (intro divide_strict_left_mono) simp_all
  moreover have "100 / maxDiagonal < 1" using d by simp
  ultimately have m: "min (100 / maxDiagonal) 1 < 100 / 141" by simp
  then have "41 / 141 < 1 - min (100 / maxDiagonal) 1" by simp
  then have "(41 / 141) ^ 2 < (1 - min (100 / maxDiagonal) 1) ^ 2"
    by (rule power_strict_mono) simp_all
  then have "(41 / 141) ^ 2 * 100 * (30 / 100)
             < (1 - min (100 / maxDiagonal) 1) ^ 2 * 100 * (30 / 100)"
    by simp
  then show ?thesis
    unfolding positionScoreWith_offTarget by (simp add: power2_eq_square)
qed

text \<open>
  C4, as stated, fails: the code normalises by the constant 141, not by the diagonal of
  the space. For one item placed at (5, 85) with target (85, 25), at distance 100, the
  code gives ((1 - 100/141)^2 * 100) * 30/100 = 50430/19881, which is not the value obtained
  with the diagonal.
\<close>

theorem position_score_diagonal_counterexample:
  "calculatePositionScore [offTarget] = 50430 / 19881
   \<and> calculatePositionScore [offTarget] \<noteq> positionScoreWith maxDiagonal [offTarget]"
  using offTarget_code offTarget_spec by simp

lemma placedItems_idem: "placedItems (placedItems cs) = placedItems cs"
  by (simp add: placedItems_def)

text \<open>
  C4, amended. The position sub-score is the average over the placed items of
  (1 - min(d/141, 1))^2 * 100, scaled by 30/100, where d is the distance from the actual
  to the target position. It is the same on the placed items alone, and it is 0 when no
  item is placed.
\<close>

theorem position_score:
  "calculatePositionScore cs = positionScoreWith 141 cs
   \<and> calculatePositionScore cs = calculatePositionScore (placedItems cs)
   \<and> (placedItems cs = [] \<longrightarrow> calculatePositionScore cs = 0)"
  by (simp add: calculatePositionScore_formula positionScoreWith_def placedItems_idem)

theorem position_score_witness:
  "placedItems [unplacedItem] = [] \<and> calculatePositionScore [unplacedItem] = 0"
proof -
  have "placedItems [unplacedItem] = []"
    by (simp add: placedItems_def unplacedItem_def mkComponent_def)
  with position_score [of "[unplacedItem]"] show ?thesis by simp
qed

section \<open>Badges\<close>

lemma getEvolutionStageFromX_cases:
  "getEvolutionStageFromX x =
     (if 0 \<le> x \<and> x < 25 then Genesis
      else if 25 \<le> x \<and> x < 50 then Custom
      else if 50 \<le> x \<and> x < 75 then Product
      else Commodity)"
  by (simp add: getEvolutionStageFromX_def EVOLUTION_STAGES_def)

lemma getEvolutionStageFromX_Genesis:
  "getEvolutionStageFromX x = Genesis \<longleftrightarrow> 0 \<le> x \<and> x < 25"
  by (simp add: getEvolutionStageFromX_cases)

lemma getEvolutionStageFromX_outside:
  "x < 0 \<or> 100 \<le> x \<Longrightarrow> getEvolutionStageFromX x = Commodity"
  by (auto simp: getEvolutionStageFromX_cases)

lemma checkBadgeEarned_cloud:
  "checkBadgeEarned ''cloud-wisdom'' cs ds =
    (case find (\<lambda>c. comp_id c = ''cloud-compute'') cs of
       None \<Rightarrow> False
     | Some cloudCompute \<Rightarrow>
        (case position cloudCompute of
           None \<Rightarrow> False
         | Some p \<Rightarrow> getEvolutionStageFromX (pos_x p) = Commodity
                     \<and> classification cloudCompute = Some Buy))"
  unfolding checkBadgeEarned_def Let_def by simp

lemma checkBadgeEarned_innovation:
  "checkBadgeEarned ''innovation-star'' cs ds =
    list_all genesisBuilt (filter (\<lambda>c. correctEvolution c = Genesis) cs)"
proof -
  have "(\<lambda>c. case position c of None \<Rightarrow> False
              | Some p \<Rightarrow> getEvolutionStageFromX (pos_x p) = Genesis
                          \<and> classification c = Some Build) = genesisBuilt"
    by (rule ext) (simp add: genesisBuilt_def getEvolutionStageFromX_Genesis split: option.splits)
  then show ?thesis unfolding checkBadgeEarned_def Let_def by simp
qed

lemma checkBadgeEarned_reindeer:
  "checkBadgeEarned ''reindeer-efficiency'' cs ds =
    (case find (\<lambda>c. correctClassification c = Some Repurpose) cs of
       None \<Rightarrow> False
     | Some repurposeComponent \<Rightarrow> classification repurposeComponent = Some Repurpose)"
  unfolding checkBadgeEarned_def Let_def by simp

text \<open>
  C7. The genesis-build badge is earned exactly when every item whose target tier is
  genesis is built in the sense above; in particular it is earned when no item has the
  genesis tier as target.
\<close>

theorem innovation_star:
  "(checkBadgeEarned ''innovation-star'' cs ds
      \<longleftrightarrow> (\<forall>c \<in> set cs. correctEvolution c = Genesis \<longrightarrow> genesisBuilt c))
   \<and> (filter (\<lambda>c. correctEvolution c = Genesis) cs = []
      \<longrightarrow> checkBadgeEarned ''innovation-star'' cs ds)"
  by (auto simp: checkBadgeEarned_innovation list_all_iff)

theorem innovation_star_witness:
  "filter (\<lambda>c. correctEvolution c = Genesis) noGenesis = []
   \<and> checkBadgeEarned ''innovation-star'' noGenesis []
   \<and> checkBadgeEarned ''innovation-star'' genesisDone []
   \<and> \<not> checkBadgeEarned ''innovation-star'' genesisMisplaced []"
proof -
  have a: "filter (\<lambda>c. correctEvolution c = Genesis) noGenesis = []"
    by (simp add: noGenesis_def mkComponent_def)
  have b: "\<forall>c \<in> set genesisDone. correctEvolution c = Genesis \<longrightarrow> genesisBuilt c"
    by (simp add: genesisDone_def mkComponent_def genesisBuilt_def)
  have c: "\<not> (\<forall>c \<in> set genesisMisplaced. correctEvolution c = Genesis \<longrightarrow> genesisBuilt c)"
    by (simp add: genesisMisplaced_def mkComponent_def genesisBuilt_def)
  from innovation_star [of noGenesis "[]"] innovation_star [of genesisDone "[]"]
    innovation_star [of genesisMisplaced "[]"] a b c
  show ?thesis by blast
qed

text \<open>
  C8. The repurpose badge is earned exactly when the first item whose target
  classification is "repurpose" is classified "repurpose"; when no item has that target
  classification it is not earned.
\<close>

theorem reindeer_efficiency:
  "(checkBadgeEarned ''reindeer-efficiency'' cs ds
      \<longleftrightarrow> (\<exists>i < length cs. correctClassification (cs ! i) = Some Repurpose
            \<and> (\<forall>j < i. correctClassification (cs ! j) \<noteq> Some Repurpose)
            \<and> classification (cs ! i) = Some Repurpose))
   \<and> (filter (\<lambda>c. correctClassification c = Some Repurpose) cs = []
      \<longrightarrow> \<not> checkBadgeEarned ''reindeer-efficiency'' cs ds)"
proof (cases "find (\<lambda>c. correctClassification c = Some Repurpose) cs")
  case None
  then have n: "\<forall>c \<in> set cs. correctClassification c \<noteq> Some Repurpose"
    by (auto simp: find_None_iff)
  then have "\<not> (\<exists>i < length cs. correctClassification (cs ! i) = Some Repurpose
            \<and> (\<forall>j < i. correctClassification (cs ! j) \<noteq> Some Repurpose)
            \<and> classification (cs ! i) = Some Repurpose)"
    by auto
  then show ?thesis using None by (simp add: checkBadgeEarned_reindeer)
next
  case (Some r)
  then obtain i where i: "i < length cs" "correctClassification (cs ! i) = Some Repurpose"
      "r = cs ! i" "\<forall>j < i. correctClassification (cs ! j) \<noteq> Some Repurpose"
    by (auto simp: find_Some_iff)
  have uniq: "k = i" if "k < length cs" "correctClassification (cs ! k) = Some Repurpose"
      "\<forall>j < k. correctClassification (cs ! j) \<noteq> Some Repurpose" for k
    using that i by (meson linorder_neqE_nat)
  have "cs ! i \<in> set cs" using i(1) by simp
  then have ex: "filter (\<lambda>c. correctClassification c = Some Repurpose) cs \<noteq> []"
    using i(2) by (auto simp: filter_empty_conv)
  have "checkBadgeEarned ''reindeer-efficiency'' cs ds
        \<longleftrightarrow> classification (cs ! i) = Some Repurpose"
    using Some i(3) by (simp add: checkBadgeEarned_reindeer)
  also have "\<dots> \<longleftrightarrow> (\<exists>i < length cs. correctClassification (cs ! i) = Some Repurpose
            \<and> (\<forall>j < i. correctClassification (cs ! j) \<noteq> Some Repurpose)
            \<and> classification (cs ! i) = Some Repurpose)"
    using i uniq by blast
  finally show ?thesis using ex by blast
qed

theorem reindeer_efficiency_witness:
  "filter (\<lambda>c. correctClassification c = Some Repurpose) noGenesis = []
   \<and> \<not> checkBadgeEarned ''reindeer-efficiency'' noGenesis []
   \<and> \<not> checkBadgeEarned ''reindeer-efficiency'' repurposeSecond []
   \<and> checkBadgeEarned ''reindeer-efficiency'' repurposeFirst []"
proof -
  have a: "filter (\<lambda>c. correctClassification c = Some Repurpose) noGenesis = []"
    by (simp add: noGenesis_def mkComponent_def)
  have b: "\<not> checkBadgeEarned ''reindeer-efficiency'' repurposeSecond []"
    by (simp add: checkBadgeEarned_reindeer repurposeSecond_def mkComponent_def)
  have c: "checkBadgeEarned ''reindeer-efficiency'' repurposeFirst []"
    by (simp add: checkBadgeEarned_reindeer repurposeFirst_def mkComponent_def)
  from reindeer_efficiency [of noGenesis "[]"] a b c show ?thesis by blast
qed

text \<open>
  C10. For every X below 0 and every X from 100 on, the stage lookup returns the commodity
  stage; so the cloud badge is earned when the first item with id "cloud-compute" is
  classified "buy" and has a position with such an X coordinate.
\<close>

theorem cloud_wisdom_out_of_range:
  "(x < 0 \<or> 100 \<le> x \<longrightarrow> getEvolutionStageFromX x = Commodity)
   \<and> (find (\<lambda>c. comp_id c = ''cloud-compute'') cs = Some c \<and> position c = Some p
        \<and> (pos_x p < 0 \<or> 100 \<le> pos_x p) \<and> classification c = Some Buy
      \<longrightarrow> checkBadgeEarned ''cloud-wisdom'' cs ds)"
  by (auto simp: checkBadgeEarned_cloud getEvolutionStageFromX_outside)

theorem cloud_wisdom_out_of_range_witness:
  "(100::real) \<le> 150
   \<and> getEvolutionStageFromX 150 = Commodity
   \<and> getEvolutionStageFromX (- 3) = Commodity
   \<and> getEvolutionStageFromX 100 = Commodity
   \<and> find (\<lambda>c. comp_id c = ''cloud-compute'') noGenesis
       = Some (mkComponent ''cloud-compute'' Commodity Buy (85, 25) (Some (150, 25)) (Some Buy))
   \<and> checkBadgeEarned ''cloud-wisdom'' noGenesis []"
proof -
  let ?c = "mkComponent ''cloud-compute'' Commodity Buy (85, 25) (Some (150, 25)) (Some Buy)"
  have f: "find (\<lambda>c. comp_id c = ''cloud-compute'') noGenesis = Some ?c"
    by (simp add: noGenesis_def mkComponent_def)
  have p: "position ?c = Some \<lparr>pos_x = 150, pos_y = 25\<rparr>" "classification ?c = Some Buy"
    by (simp_all add: mkComponent_def)
  from cloud_wisdom_out_of_range [of 150 noGenesis ?c "\<lparr>pos_x = 150, pos_y = 25\<rparr>" "[]"]
    cloud_wisdom_out_of_range [of "- 3" noGenesis ?c "\<lparr>pos_x = 150, pos_y = 25\<rparr>" "[]"]
    cloud_wisdom_out_of_range [of 100 noGenesis ?c "\<lparr>pos_x = 150, pos_y = 25\<rparr>" "[]"] f p
  show ?thesis by simp
qed

section \<open>Edge routing\<close>

lemma edgeIntersect_struckEdge:
  "edgeIntersect f t =
     edgePoint (struckEdge (directionAngle f t) cornerAngle) t
       (CARD_WIDTH / 2) (CARD_HEIGHT / 2) (directionAngle f t)"
  unfolding edgeIntersect_def Let_def struckEdge_def directionAngle_def cornerAngle_def
  by simp

lemma cornerAngle_pos: "0 < cornerAngle"
  by (simp add: cornerAngle_def Math_atan2_def CARD_HEIGHT_def CARD_WIDTH_def)

lemma cornerAngle_lt: "cornerAngle < pi / 2"
  using arctan_ubound [of "12 / 19"]
  by (simp add: cornerAngle_def Math_atan2_def CARD_HEIGHT_def CARD_WIDTH_def)

lemma tan_minus_pi: "tan (a - pi) = tan (a::real)"
  using tan_periodic_pi [of "a - pi"] by simp

lemma tan_Math_atan2: "x \<noteq> 0 \<Longrightarrow> tan (Math_atan2 y x) = y / x"
  by (simp add: Math_atan2_def tan_arctan tan_minus_pi)

lemma Math_atan2_vertical:
  "Math_atan2 y 0 = (if y > 0 then pi / 2 else if y < 0 then - (pi / 2) else 0)"
  by (simp add: Math_atan2_def)

lemma Math_atan2_horizontal: "Math_atan2 0 x = (if x < 0 then pi else 0)"
  by (simp add: Math_atan2_def)

lemma tan_half_pi: "tan (pi / 2) = 0" "tan (- (pi / 2)) = 0"
  by (simp_all add: tan_def)

lemma Math_atan2_left: "x < 0 \<Longrightarrow> pi / 2 < \<bar>Math_atan2 y x\<bar>"
  using arctan_ubound [of "y / x"] arctan_lbound [of "y / x"]
  by (auto simp: Math_atan2_def)

lemma tan_times_dx:
  assumes "\<bar>Math_atan2 dy dx\<bar> \<noteq> pi / 2"
  shows "tan (Math_atan2 dy dx) * dx = dy"
proof (cases "dx = 0")
  case True
  with assms have "dy = 0"
    using pi_gt_zero by (auto simp: Math_atan2_vertical split: if_splits)
  with True show ?thesis by simp
next
  case False
  then show ?thesis by (simp add: tan_Math_atan2)
qed

lemma over_tan_times_dy:
  assumes "Math_atan2 dy dx \<noteq> 0" and "Math_atan2 dy dx \<noteq> pi"
  shows "h / tan (Math_atan2 dy dx) * dy = h * dx"
proof (cases "dx = 0")
  case True
  then show ?thesis
    by (simp add: Math_atan2_vertical tan_half_pi)
next
  case False
  have "dy \<noteq> 0"
  proof
    assume "dy = 0"
    then have "Math_atan2 dy dx = 0 \<or> Math_atan2 dy dx = pi"
      by (simp add: Math_atan2_horizontal)
    with assms show False by simp
  qed
  with False show ?thesis by (simp add: tan_Math_atan2)
qed

lemma edgeIntersect_cases:
  "(fst (edgeIntersect f t) - pos_x t) * (pos_y t - pos_y f) =
     (if struckEdge (directionAngle f t) cornerAngle = TopEdge
      then - ((snd (edgeIntersect f t) - pos_y t) * (pos_x t - pos_x f))
      else (snd (edgeIntersect f t) - pos_y t) * (pos_x t - pos_x f))"
proof -
  define dx where "dx = pos_x t - pos_x f"
  define dy where "dy = pos_y t - pos_y f"
  define p where "p = edgeIntersect f t"
  let ?a = "Math_atan2 dy dx"
  have a: "directionAngle f t = ?a" by (simp add: directionAngle_def dx_def dy_def)
  have "(fst p - pos_x t) * dy =
           (if struckEdge (directionAngle f t) cornerAngle = TopEdge
            then - ((snd p - pos_y t) * dx) else (snd p - pos_y t) * dx)"
  proof -
  note c = cornerAngle_pos cornerAngle_lt pi_gt_zero
  show ?thesis
  proof (cases "struckEdge ?a cornerAngle")
    case RightEdge
    then have "\<bar>?a\<bar> < cornerAngle"
      by (simp add: struckEdge_def split: if_splits)
    then have "\<bar>?a\<bar> \<noteq> pi / 2" using c by linarith
    then have "tan ?a * dx = dy" by (rule tan_times_dx)
    then show ?thesis
      unfolding p_def edgeIntersect_struckEdge a RightEdge
      by (simp add: algebra_simps)
  next
    case LeftEdge
    then have "\<bar>?a\<bar> > pi - cornerAngle"
      by (simp add: struckEdge_def split: if_splits)
    then have "\<bar>?a\<bar> \<noteq> pi / 2" using c by linarith
    then have "tan ?a * dx = dy" by (rule tan_times_dx)
    then show ?thesis
      unfolding p_def edgeIntersect_struckEdge a LeftEdge
      by (simp add: algebra_simps)
  next
    case BottomEdge
    then have "\<not> \<bar>?a\<bar> < cornerAngle" "\<not> \<bar>?a\<bar> > pi - cornerAngle"
      by (simp_all add: struckEdge_def split: if_splits)
    then have "?a \<noteq> 0" "?a \<noteq> pi" using c by linarith+
    then have "CARD_HEIGHT / 2 / tan ?a * dy = CARD_HEIGHT / 2 * dx"
      by (rule over_tan_times_dy)
    then show ?thesis
      unfolding p_def edgeIntersect_struckEdge a BottomEdge
      by (simp add: algebra_simps)
  next
    case TopEdge
    then have "\<not> \<bar>?a\<bar> < cornerAngle" "\<not> \<bar>?a\<bar> > pi - cornerAngle"
      by (simp_all add: struckEdge_def split: if_splits)
    then have "?a \<noteq> 0" "?a \<noteq> pi" using c by linarith+
    then have "CARD_HEIGHT / 2 / tan ?a * dy = CARD_HEIGHT / 2 * dx"
      by (rule over_tan_times_dy)
    then show ?thesis
      unfolding p_def edgeIntersect_struckEdge a TopEdge
      by (simp add: algebra_simps)
  qed
  qed
  then show ?thesis by (simp add: dx_def dy_def p_def)
qed

lemma snd_edgeIntersect_Top:
  "struckEdge (directionAngle f t) cornerAngle = TopEdge
   \<Longrightarrow> snd (edgeIntersect f t) - pos_y t = CARD_HEIGHT / 2"
  by (simp add: edgeIntersect_struckEdge)

lemma edgeIntersect_onCenterLine:
  "onCenterLine f t (edgeIntersect f t)
   \<longleftrightarrow> struckEdge (directionAngle f t) cornerAngle \<noteq> TopEdge \<or> pos_x t = pos_x f"
proof (cases "struckEdge (directionAngle f t) cornerAngle = TopEdge")
  case True
  have "onCenterLine f t (edgeIntersect f t)
        \<longleftrightarrow> - (CARD_HEIGHT / 2 * (pos_x t - pos_x f)) = CARD_HEIGHT / 2 * (pos_x t - pos_x f)"
    unfolding onCenterLine_def edgeIntersect_cases [of f t]
    by (simp add: True snd_edgeIntersect_Top)
  also have "\<dots> \<longleftrightarrow> pos_x t = pos_x f"
    by (auto simp: CARD_HEIGHT_def)
  finally show ?thesis using True by simp
next
  case False
  then show ?thesis
    unfolding onCenterLine_def edgeIntersect_cases [of f t] by simp
qed

lemma lineLength_zero: "sqrt (dx * dx + dy * dy) = 0 \<longleftrightarrow> dx = 0 \<and> dy = (0::real)"
  by (simp add: sum_squares_eq_zero_iff)

lemma getEdgeIntersection_None:
  "getEdgeIntersection f t = None \<longleftrightarrow> pos_x t = pos_x f \<and> pos_y t = pos_y f"
  unfolding getEdgeIntersection_def Let_def lineLength_zero
  by (simp split: prod.splits)

lemma getEdgeIntersection_Some:
  assumes "getEdgeIntersection f t = Some r"
  shows "pos_x r = fst (edgeIntersect f t)
           - (pos_x t - pos_x f)
             / sqrt ((pos_x t - pos_x f)\<^sup>2 + (pos_y t - pos_y f)\<^sup>2) * ARROWHEAD_LENGTH"
    and "pos_y r = snd (edgeIntersect f t)
           - (pos_y t - pos_y f)
             / sqrt ((pos_x t - pos_x f)\<^sup>2 + (pos_y t - pos_y f)\<^sup>2) * ARROWHEAD_LENGTH"
    and "pos_x t \<noteq> pos_x f \<or> pos_y t \<noteq> pos_y f"
  using assms unfolding getEdgeIntersection_def Let_def
  by (auto simp: power2_eq_square split: prod.splits if_splits)

lemma pulled_back_by_clearance:
  assumes "getEdgeIntersection f t = Some r"
  shows "(fst (edgeIntersect f t) - pos_x r)\<^sup>2 + (snd (edgeIntersect f t) - pos_y r)\<^sup>2
         = ARROWHEAD_LENGTH\<^sup>2"
proof -
  define dx where "dx = pos_x t - pos_x f"
  define dy where "dy = pos_y t - pos_y f"
  define n where "n = sqrt (dx\<^sup>2 + dy\<^sup>2)"
  from getEdgeIntersection_Some [OF assms]
  have x: "fst (edgeIntersect f t) - pos_x r = dx / n * ARROWHEAD_LENGTH"
    and y: "snd (edgeIntersect f t) - pos_y r = dy / n * ARROWHEAD_LENGTH"
    and nz: "dx \<noteq> 0 \<or> dy \<noteq> 0"
    by (simp_all add: dx_def dy_def n_def)
  have n2: "n\<^sup>2 = dx\<^sup>2 + dy\<^sup>2" by (simp add: n_def)
  have pos: "0 < dx\<^sup>2 + dy\<^sup>2" using nz by (simp add: sum_power2_gt_zero_iff)
  then have ne: "dx\<^sup>2 + dy\<^sup>2 \<noteq> 0" by linarith
  have one: "(dx\<^sup>2 + dy\<^sup>2) / n\<^sup>2 = 1" unfolding n2 using ne by (rule divide_self)
  have "(dx / n * ARROWHEAD_LENGTH)\<^sup>2 + (dy / n * ARROWHEAD_LENGTH)\<^sup>2
        = (dx\<^sup>2 + dy\<^sup>2) / n\<^sup>2 * ARROWHEAD_LENGTH\<^sup>2"
    by (simp add: power_mult_distrib power_divide add_divide_distrib distrib_right)
  also have "\<dots> = ARROWHEAD_LENGTH\<^sup>2" unfolding one by simp
  finally show ?thesis by (simp add: x y)
qed

lemma getEdgeIntersection_onCenterLine:
  assumes "getEdgeIntersection f t = Some r"
  shows "onCenterLine f t (pos_x r, pos_y r) \<longleftrightarrow> onCenterLine f t (edgeIntersect f t)"
  unfolding onCenterLine_def
  by (simp add: getEdgeIntersection_Some(1,2) [OF assms] algebra_simps)

lemma connector_source:
  assumes "connector cs w h dep = Some (src, dst)"
  shows "getComponentCenter cs w h (fromComponentId dep) = Some src"
  using assms unfolding connector_def Let_def
  by (auto split: option.splits)

lemma connector_destination:
  assumes "connector cs w h dep = Some (src, dst)"
  shows "\<exists>c. getComponentCenter cs w h (toComponentId dep) = Some c
             \<and> dst = getEdgeIntersection src c"
  using assms unfolding connector_def Let_def
  by (auto split: option.splits)

lemma struckEdge_zero: "struckEdge 0 cornerAngle = RightEdge"
  using cornerAngle_pos by (simp add: struckEdge_def)

lemma horizontal_getEdgeIntersection:
  "getEdgeIntersection \<lparr>pos_x = 0, pos_y = 0\<rparr> \<lparr>pos_x = 100, pos_y = 0\<rparr>
   = Some \<lparr>pos_x = -5, pos_y = 0\<rparr>"
proof -
  have a: "directionAngle \<lparr>pos_x = 0, pos_y = 0\<rparr> \<lparr>pos_x = 100, pos_y = 0\<rparr> = 0"
    by (simp add: directionAngle_def Math_atan2_def)
  have "edgeIntersect \<lparr>pos_x = 0, pos_y = 0\<rparr> \<lparr>pos_x = 100, pos_y = 0\<rparr> = (5, 0)"
    unfolding edgeIntersect_struckEdge a struckEdge_zero
    by (simp add: CARD_WIDTH_def)
  then show ?thesis
    unfolding getEdgeIntersection_def Let_def
    by (simp add: ARROWHEAD_LENGTH_def)
qed

lemma sqrt_250000: "sqrt 250000 = 500"
proof -
  have "sqrt (500\<^sup>2) = 500" by simp
  then show ?thesis by simp
qed

lemma cornerAngle_arctan: "cornerAngle = arctan (12 / 19)"
  by (simp add: cornerAngle_def Math_atan2_def CARD_HEIGHT_def CARD_WIDTH_def)

lemma struckEdge_up_left:
  assumes "12 / 19 \<le> q"
  shows "struckEdge (arctan q - pi) cornerAngle = TopEdge"
proof -
  have a: "cornerAngle \<le> arctan q"
    unfolding cornerAngle_arctan using assms by (simp add: arctan_le_iff)
  have b: "arctan q < pi / 2" by (rule arctan_ubound)
  have c: "0 < arctan q" using a cornerAngle_pos by linarith
  have abs: "\<bar>arctan q - pi\<bar> = pi - arctan q" using b c pi_gt_zero by linarith
  have n1: "\<not> pi - arctan q < cornerAngle" using b cornerAngle_lt by linarith
  have n2: "\<not> pi - arctan q > pi - cornerAngle" using a by linarith
  have n3: "\<not> arctan q - pi > 0" using b pi_gt_zero by linarith
  show ?thesis
    unfolding struckEdge_def abs by (simp only: n1 n2 n3 if_False)
qed

lemma struckEdge_down_right:
  assumes "12 / 19 \<le> q"
  shows "struckEdge (arctan q) cornerAngle = BottomEdge"
proof -
  have a: "cornerAngle \<le> arctan q"
    unfolding cornerAngle_arctan using assms by (simp add: arctan_le_iff)
  have b: "arctan q < pi / 2" by (rule arctan_ubound)
  have c: "0 < arctan q" using a cornerAngle_pos by linarith
  have abs: "\<bar>arctan q\<bar> = arctan q" using c by simp
  have n1: "\<not> arctan q < cornerAngle" using a by linarith
  have n2: "\<not> arctan q > pi - cornerAngle" using b cornerAngle_lt by linarith
  show ?thesis
    unfolding struckEdge_def abs by (simp only: n1 n2 c if_False if_True)
qed

lemma upward_angle:
  "directionAngle \<lparr>pos_x = 700, pos_y = 500\<rparr> \<lparr>pos_x = 400, pos_y = 100\<rparr>
   = arctan (4 / 3) - pi"
  by (simp add: directionAngle_def Math_atan2_def)

lemma upward_edgeIntersect:
  "edgeIntersect \<lparr>pos_x = 700, pos_y = 500\<rparr> \<lparr>pos_x = 400, pos_y = 100\<rparr> = (355, 160)"
proof -
  have "struckEdge (arctan (4 / 3) - pi) cornerAngle = TopEdge"
    by (rule struckEdge_up_left) simp
  then show ?thesis
    unfolding edgeIntersect_struckEdge upward_angle
    by (simp add: tan_minus_pi tan_arctan CARD_HEIGHT_def)
qed

lemma upward_getEdgeIntersection:
  "getEdgeIntersection \<lparr>pos_x = 700, pos_y = 500\<rparr> \<lparr>pos_x = 400, pos_y = 100\<rparr>
   = Some \<lparr>pos_x = 361, pos_y = 168\<rparr>"
  unfolding getEdgeIntersection_def Let_def upward_edgeIntersect
  by (simp add: sqrt_250000 ARROWHEAD_LENGTH_def)

lemma downward_angle:
  "directionAngle \<lparr>pos_x = 400, pos_y = 100\<rparr> \<lparr>pos_x = 700, pos_y = 500\<rparr> = arctan (4 / 3)"
  by (simp add: directionAngle_def Math_atan2_def)

lemma downward_edgeIntersect:
  "edgeIntersect \<lparr>pos_x = 400, pos_y = 100\<rparr> \<lparr>pos_x = 700, pos_y = 500\<rparr> = (655, 440)"
proof -
  have "struckEdge (arctan (4 / 3)) cornerAngle = BottomEdge"
    by (rule struckEdge_down_right) simp
  then show ?thesis
    unfolding edgeIntersect_struckEdge downward_angle
    by (simp add: tan_arctan CARD_HEIGHT_def)
qed

lemma downward_getEdgeIntersection:
  "getEdgeIntersection \<lparr>pos_x = 400, pos_y = 100\<rparr> \<lparr>pos_x = 700, pos_y = 500\<rparr>
   = Some \<lparr>pos_x = 649, pos_y = 432\<rparr>"
  unfolding getEdgeIntersection_def Let_def downward_edgeIntersect
  by (simp add: sqrt_250000 ARROWHEAD_LENGTH_def)

lemma downward_on_line:
  "onCenterLine \<lparr>pos_x = 400, pos_y = 100\<rparr> \<lparr>pos_x = 700, pos_y = 500\<rparr>
     (edgeIntersect \<lparr>pos_x = 400, pos_y = 100\<rparr> \<lparr>pos_x = 700, pos_y = 500\<rparr>)"
  by (simp add: downward_edgeIntersect onCenterLine_def)

text \<open>
  C5. The router chooses the struck side by comparing the absolute direction angle with
  the corner half-angle, computes a point on that side from the tangent of the angle
  scaled by the half-extent, moves it back by the arrowhead length along the unit
  direction, and leaves the source center as it is (\<open>edgeIntersect_struckEdge\<close>,
  \<open>pulled_back_by_clearance\<close>, \<open>connector_source\<close>). On the sides called right, left and
  bottom the point is the intersection of the line through the centers with the side; on
  the side called top it is the mirror image of that intersection, unless the connection
  is vertical (\<open>edgeIntersect_onCenterLine\<close>). For the source center (700, 500) and the
  target center (400, 100) the code computes (355, 160) and returns (361, 168), while the
  line through the centers meets the side at (445, 160).
\<close>

theorem edge_router_top_edge_mirrored:
  "edgeIntersect \<lparr>pos_x = 700, pos_y = 500\<rparr> \<lparr>pos_x = 400, pos_y = 100\<rparr> = (355, 160)
   \<and> getEdgeIntersection \<lparr>pos_x = 700, pos_y = 500\<rparr> \<lparr>pos_x = 400, pos_y = 100\<rparr>
       = Some \<lparr>pos_x = 361, pos_y = 168\<rparr>
   \<and> \<not> onCenterLine \<lparr>pos_x = 700, pos_y = 500\<rparr> \<lparr>pos_x = 400, pos_y = 100\<rparr> (355, 160)
   \<and> onCenterLine \<lparr>pos_x = 700, pos_y = 500\<rparr> \<lparr>pos_x = 400, pos_y = 100\<rparr> (445, 160)"
  by (simp add: upward_edgeIntersect upward_getEdgeIntersection onCenterLine_def)

end
